theory Spec2Isabelle
  imports Main
begin

section \<open>Type expressions of \<open>falcon/_typing.py\<close>\<close>

text \<open>
  The module declares type aliases and callable protocols and nothing else. Each
  declaration is embedded as the type expression (or call signature) the source
  writes, under the source's name. A forward reference written as a string
  (\<open>'Request'\<close>, \<open>'_A_REQ'\<close>) stands for the name it quotes.
\<close>

text \<open>\<open>class _Unset(Enum): UNSET = auto()\<close> (lines 61-62).\<close>

datatype Unset = UNSET

text \<open>
  The type variables of lines 66-72: \<open>_T\<close>, \<open>_BE\<close>, \<open>_REQ\<close>, \<open>_A_REQ\<close>,
  \<open>_RESP\<close>, \<open>_A_RESP\<close> (an Isabelle name cannot start with an underscore).
\<close>

datatype typevar = T | BE | REQ | A_REQ | RESP | A_RESP

text \<open>The \<open>bound=\<close> of each type variable: a class name, or none for \<open>_T\<close>.\<close>

fun bound :: "typevar \<Rightarrow> string option" where
  "bound T = None"
| "bound BE = Some ''BaseException''"
| "bound REQ = Some ''Request''"
| "bound A_REQ = Some ''AsgiRequest''"
| "bound RESP = Some ''Response''"
| "bound A_RESP = Some ''AsgiResponse''"

datatype lit = LitBool bool | LitUnset Unset

text \<open>
  The type expressions the module uses. \<open>TClass\<close> is a class referred to by name: an
  imported one (\<open>Request\<close>, \<open>WebSocket\<close>, \<open>Cookie\<close>, ...) or a protocol class of
  this module.
\<close>

datatype ty =
    TAny
  | TNone
  | TStr
  | TBytes
  | TBool
  | TInt
  | TObject
  | TVar typevar
  | TClass string
  | TLiteral lit
  | TOptional ty
  | TUnion "ty list"
  | TDict ty ty
  | TMapping ty ty
  | TIterable ty
  | TList ty
  | TTuple "ty list"
  | TPattern ty
  | TAwaitable ty
  | TCallable "ty list" ty

text \<open>
  The \<open>__call__\<close> of a protocol class, without \<open>self\<close>: the parameters before
  \<open>/\<close> (positional-only), the ordinary ones, the ones after \<open>*\<close> (keyword-only),
  the annotation of \<open>**kwargs\<close> if there is one, the annotated result, and whether
  the method is \<open>async def\<close>. A parameter written \<open>= ...\<close> has a default.
\<close>

record param =
  pname :: string
  ptype :: ty
  has_default :: bool

record signature =
  is_async :: bool
  posonly :: "param list"
  pos_or_kw :: "param list"
  kwonly :: "param list"
  var_kw :: "ty option"
  returns :: ty

definition required :: "string \<Rightarrow> ty \<Rightarrow> param" where
  "required n t = \<lparr>pname = n, ptype = t, has_default = False\<rparr>"

definition defaulted :: "string \<Rightarrow> ty \<Rightarrow> param" where
  "defaulted n t = \<lparr>pname = n, ptype = t, has_default = True\<rparr>"

datatype contract = Alias ty | Protocol signature

subsection \<open>The declarations, in source order\<close>

text \<open>Lines 47-48, the branch for Python before 3.11 (3.11 imports both from \<open>wsgiref.types\<close>).\<close>

definition WSGIEnvironment :: ty where
  "WSGIEnvironment = TDict TStr TAny"

definition StartResponse :: ty where
  "StartResponse = TCallable [TStr, TList (TTuple [TStr, TStr])] (TCallable [TBytes] TNone)"

definition Link :: ty where
  "Link = TDict TStr TStr"

definition CookieArg :: ty where
  "CookieArg = TMapping TStr (TUnion [TStr, TClass ''Cookie''])"

definition ErrorHandler :: ty where
  "ErrorHandler = TCallable [TVar REQ, TVar RESP, TVar BE, TDict TStr TAny] TNone"

definition AsgiErrorHandler :: signature where
  "AsgiErrorHandler =
     \<lparr>is_async = True,
      posonly = [required ''req'' (TVar A_REQ),
                 required ''resp'' (TOptional (TVar A_RESP)),
                 required ''error'' (TVar BE),
                 required ''params'' (TDict TStr TAny)],
      pos_or_kw = [],
      kwonly = [defaulted ''ws'' (TOptional (TClass ''WebSocket''))],
      var_kw = None,
      returns = TNone\<rparr>"

definition ErrorSerializer :: ty where
  "ErrorSerializer = TCallable [TVar REQ, TVar RESP, TClass ''HTTPError''] TNone"

definition SinkPrefix :: ty where
  "SinkPrefix = TUnion [TStr, TPattern TStr]"

definition SinkCallable :: signature where
  "SinkCallable =
     \<lparr>is_async = False,
      posonly = [required ''req'' (TVar REQ), required ''resp'' (TVar RESP)],
      pos_or_kw = [],
      kwonly = [],
      var_kw = Some TStr,
      returns = TNone\<rparr>"

definition AsgiSinkCallable :: signature where
  "AsgiSinkCallable =
     \<lparr>is_async = True,
      posonly = [required ''req'' (TVar A_REQ), required ''resp'' (TVar A_RESP)],
      pos_or_kw = [],
      kwonly = [],
      var_kw = Some TStr,
      returns = TNone\<rparr>"

definition HeaderMapping :: ty where
  "HeaderMapping = TMapping TStr TStr"

definition HeaderIter :: ty where
  "HeaderIter = TIterable (TTuple [TStr, TStr])"

definition HeaderArg :: ty where
  "HeaderArg = TUnion [HeaderMapping, HeaderIter]"

definition ResponseStatus :: ty where
  "ResponseStatus = TUnion [TClass ''http.HTTPStatus'', TStr, TInt]"

definition StoreArg :: ty where
  "StoreArg = TOptional (TDict TStr TAny)"

definition Resource :: ty where
  "Resource = TObject"

definition RangeSetHeader :: ty where
  "RangeSetHeader = TUnion [TTuple [TInt, TInt, TInt], TTuple [TInt, TInt, TInt, TStr]]"

definition ResponderMethod :: signature where
  "ResponderMethod =
     \<lparr>is_async = False,
      posonly = [required ''resource'' Resource,
                 required ''req'' (TVar REQ),
                 required ''resp'' (TVar RESP)],
      pos_or_kw = [],
      kwonly = [],
      var_kw = Some TAny,
      returns = TNone\<rparr>"

definition ResponderCallable :: signature where
  "ResponderCallable =
     \<lparr>is_async = False,
      posonly = [required ''req'' (TVar REQ), required ''resp'' (TVar RESP)],
      pos_or_kw = [],
      kwonly = [],
      var_kw = Some TAny,
      returns = TNone\<rparr>"

definition ProcessRequestMethod :: ty where
  "ProcessRequestMethod = TCallable [TVar REQ, TVar RESP] TNone"

definition ProcessResourceMethod :: ty where
  "ProcessResourceMethod = TCallable [TVar REQ, TVar RESP, Resource, TDict TStr TAny] TNone"

definition ProcessResponseMethod :: ty where
  "ProcessResponseMethod = TCallable [TVar REQ, TVar RESP, Resource, TBool] TNone"

definition AsgiResponderMethod :: signature where
  "AsgiResponderMethod =
     \<lparr>is_async = True,
      posonly = [required ''resource'' Resource,
                 required ''req'' (TVar A_REQ),
                 required ''resp'' (TVar A_RESP)],
      pos_or_kw = [],
      kwonly = [],
      var_kw = Some TAny,
      returns = TNone\<rparr>"

definition AsgiResponderCallable :: signature where
  "AsgiResponderCallable =
     \<lparr>is_async = True,
      posonly = [required ''req'' (TVar A_REQ), required ''resp'' (TVar A_RESP)],
      pos_or_kw = [],
      kwonly = [],
      var_kw = Some TAny,
      returns = TNone\<rparr>"

definition AsgiResponderWsCallable :: signature where
  "AsgiResponderWsCallable =
     \<lparr>is_async = True,
      posonly = [required ''req'' (TVar A_REQ), required ''ws'' (TClass ''WebSocket'')],
      pos_or_kw = [],
      kwonly = [],
      var_kw = Some TAny,
      returns = TNone\<rparr>"

definition AsgiReceive :: ty where
  "AsgiReceive = TCallable [] (TAwaitable (TClass ''AsgiEvent''))"

definition AsgiSend :: ty where
  "AsgiSend = TCallable [TClass ''AsgiSendMsg''] (TAwaitable TNone)"

definition AsgiProcessRequestMethod :: ty where
  "AsgiProcessRequestMethod = TCallable [TVar A_REQ, TVar A_RESP] (TAwaitable TNone)"

definition AsgiProcessResourceMethod :: ty where
  "AsgiProcessResourceMethod =
     TCallable [TVar A_REQ, TVar A_RESP, Resource, TDict TStr TAny] (TAwaitable TNone)"

definition AsgiProcessResponseMethod :: ty where
  "AsgiProcessResponseMethod =
     TCallable [TVar A_REQ, TVar A_RESP, Resource, TBool] (TAwaitable TNone)"

definition AsgiProcessRequestWsMethod :: ty where
  "AsgiProcessRequestWsMethod =
     TCallable [TVar A_REQ, TClass ''WebSocket''] (TAwaitable TNone)"

definition AsgiProcessResourceWsMethod :: ty where
  "AsgiProcessResourceWsMethod =
     TCallable [TVar A_REQ, TClass ''WebSocket'', Resource, TDict TStr TAny] (TAwaitable TNone)"

definition ResponseCallbacks :: ty where
  "ResponseCallbacks =
     TUnion [TTuple [TCallable [] TNone, TLiteral (LitBool False)],
             TTuple [TCallable [] (TAwaitable TNone), TLiteral (LitBool True)]]"

definition MethodDict :: ty where
  "MethodDict =
     TUnion [TDict TStr (TClass ''ResponderCallable''),
             TDict TStr (TUnion [TClass ''AsgiResponderCallable'',
                                 TClass ''AsgiResponderWsCallable''])]"

definition FindMethod :: signature where
  "FindMethod =
     \<lparr>is_async = False,
      posonly = [],
      pos_or_kw = [required ''uri'' TStr, required ''req'' (TOptional (TVar REQ))],
      kwonly = [],
      var_kw = None,
      returns = TOptional (TTuple [TObject, MethodDict, TDict TStr TAny, TOptional TStr])\<rparr>"

definition SerializeSync :: signature where
  "SerializeSync =
     \<lparr>is_async = False,
      posonly = [],
      pos_or_kw = [required ''media'' TAny, defaulted ''content_type'' (TOptional TStr)],
      kwonly = [],
      var_kw = None,
      returns = TBytes\<rparr>"

definition DeserializeSync :: ty where
  "DeserializeSync = TCallable [TBytes] TAny"

definition Responder :: ty where
  "Responder = TUnion [TClass ''ResponderMethod'', TClass ''AsgiResponderMethod'']"

subsection \<open>Reading a declaration as a call signature\<close>

text \<open>
  \<open>Callable[[a, b], r]\<close> is a callable of anonymous positional parameters: it reads as a
  signature whose parameters are all positional-only and required. Any other alias is
  not a callable.
\<close>

fun signature_of :: "contract \<Rightarrow> signature option" where
  "signature_of (Protocol s) = Some s"
| "signature_of (Alias (TCallable args r)) =
     Some \<lparr>is_async = False, posonly = map (required []) args, pos_or_kw = [],
           kwonly = [], var_kw = None, returns = r\<rparr>"
| "signature_of (Alias _) = None"

text \<open>What a call evaluates to: calling an \<open>async def\<close> gives an awaitable of its result.\<close>

definition result_type :: "signature \<Rightarrow> ty" where
  "result_type s = (if is_async s then TAwaitable (returns s) else returns s)"

text \<open>
  A call site, as far as argument binding sees it: how many arguments are passed by
  position and which names are passed by keyword.
\<close>

record call =
  npos :: nat
  kw_names :: "string list"

text \<open>
  Python's argument binding for a signature without \<open>*args\<close> (no declaration of the
  module has one). Positional arguments fill the positional-only parameters and then the
  ordinary ones, in order, and there must not be more of them than such parameters. A
  keyword binds an ordinary parameter not already filled by position, or a keyword-only
  one; any other keyword (also one spelled like a positional-only parameter) goes to
  \<open>**kwargs\<close> when the signature has it and is an error otherwise. Every parameter
  without a default must be bound.
\<close>

definition accepts :: "signature \<Rightarrow> call \<Rightarrow> bool" where
  "accepts s c =
     (let by_pos = take (npos c - length (posonly s)) (pos_or_kw s);
          rest = drop (npos c - length (posonly s)) (pos_or_kw s)
      in npos c \<le> length (posonly s) + length (pos_or_kw s)
         \<and> distinct (kw_names c)
         \<and> list_all has_default (drop (npos c) (posonly s))
         \<and> list_all (\<lambda>k. k \<notin> set (map pname by_pos)) (kw_names c)
         \<and> list_all (\<lambda>k. k \<in> set (map pname (rest @ kwonly s)) \<or> var_kw s \<noteq> None)
              (kw_names c)
         \<and> list_all (\<lambda>q. has_default q \<or> pname q \<in> set (kw_names c)) (rest @ kwonly s))"


text \<open>The same reading for any declaration; an alias that is not a callable accepts no call.\<close>

definition accepts_call :: "contract \<Rightarrow> call \<Rightarrow> bool" where
  "accepts_call d c = (case signature_of d of None \<Rightarrow> False | Some s \<Rightarrow> accepts s c)"

text \<open>The types of the parameters that can be passed by position, in order.\<close>

definition positional_types :: "contract \<Rightarrow> ty list" where
  "positional_types d =
     (case signature_of d of None \<Rightarrow> [] | Some s \<Rightarrow> map ptype (posonly s @ pos_or_kw s))"

text \<open>The parameters that can be passed by keyword.\<close>

definition keyword_params :: "contract \<Rightarrow> param list" where
  "keyword_params d =
     (case signature_of d of None \<Rightarrow> [] | Some s \<Rightarrow> pos_or_kw s @ kwonly s)"

text \<open>The type of every parameter of a declaration, \<open>**kwargs\<close> apart.\<close>

definition param_types :: "contract \<Rightarrow> ty list" where
  "param_types d =
     (case signature_of d of None \<Rightarrow> []
      | Some s \<Rightarrow> map ptype (posonly s @ pos_or_kw s @ kwonly s))"

subsection \<open>Unions and the absent value\<close>

text \<open>
  The alternatives of a type expression: \<open>Optional[X]\<close> is \<open>Union[X, None]\<close>, and a
  union nested in a union is flattened.
\<close>

fun members :: "ty \<Rightarrow> ty list" where
  "members (TOptional t) = members t @ [TNone]"
| "members (TUnion ts) = concat (map members ts)"
| "members t = [t]"

text \<open>
  Whether \<open>None\<close> is a value of a type expression. A type variable stands for any type
  below its bound; every bound of the module is a class, which \<open>None\<close> is not an
  instance of, so only the unbounded \<open>_T\<close> can be solved to a type that has \<open>None\<close>.
\<close>

fun admits_none :: "ty \<Rightarrow> bool" where
  "admits_none TNone = True"
| "admits_none TAny = True"
| "admits_none TObject = True"
| "admits_none (TOptional t) = True"
| "admits_none (TUnion ts) = list_ex admits_none ts"
| "admits_none (TVar v) = (bound v = None)"
| "admits_none _ = False"

subsection \<open>Synchronous and asynchronous forms\<close>

text \<open>
  The ASGI request and response type variables stand where the WSGI ones do:
  \<open>_REQ\<close> becomes \<open>_A_REQ\<close> and \<open>_RESP\<close> becomes \<open>_A_RESP\<close>, in every
  position of a type expression.
\<close>

fun asgi_var :: "typevar \<Rightarrow> typevar" where
  "asgi_var REQ = A_REQ"
| "asgi_var RESP = A_RESP"
| "asgi_var v = v"

fun asgi_ty :: "ty \<Rightarrow> ty" where
  "asgi_ty (TVar v) = TVar (asgi_var v)"
| "asgi_ty (TOptional t) = TOptional (asgi_ty t)"
| "asgi_ty (TUnion ts) = TUnion (map asgi_ty ts)"
| "asgi_ty (TDict k v) = TDict (asgi_ty k) (asgi_ty v)"
| "asgi_ty (TMapping k v) = TMapping (asgi_ty k) (asgi_ty v)"
| "asgi_ty (TIterable t) = TIterable (asgi_ty t)"
| "asgi_ty (TList t) = TList (asgi_ty t)"
| "asgi_ty (TTuple ts) = TTuple (map asgi_ty ts)"
| "asgi_ty (TPattern t) = TPattern (asgi_ty t)"
| "asgi_ty (TAwaitable t) = TAwaitable (asgi_ty t)"
| "asgi_ty (TCallable ts r) = TCallable (map asgi_ty ts) (asgi_ty r)"
| "asgi_ty t = t"

definition asgi_param :: "param \<Rightarrow> param" where
  "asgi_param q = q\<lparr>ptype := asgi_ty (ptype q)\<rparr>"

text \<open>
  The shape of a callable as a caller sees it: the types of the positional-only
  parameters (their names play no part in a call), the ordinary and the keyword-only
  parameters, the type of \<open>**kwargs\<close>, and the type a call evaluates to.
\<close>

type_synonym shape = "ty list \<times> param list \<times> param list \<times> ty option \<times> ty"

definition call_shape :: "signature \<Rightarrow> shape" where
  "call_shape s = (map ptype (posonly s), pos_or_kw s, kwonly s, var_kw s, result_type s)"

definition shape_of :: "contract \<Rightarrow> shape option" where
  "shape_of d = map_option call_shape (signature_of d)"

text \<open>
  The asynchronous counterpart of a shape: the same parameters over the ASGI type
  variables, and an awaitable of the result.
\<close>

fun async_counterpart :: "shape \<Rightarrow> shape" where
  "async_counterpart (ps, ns, ks, v, r) =
     (map asgi_ty ps, map asgi_param ns, map asgi_param ks, map_option asgi_ty v,
      TAwaitable (asgi_ty r))"

text \<open>Every callable contract the module declares at top level, by name, in source order.\<close>

definition declared_contracts :: "(string \<times> contract) list" where
  "declared_contracts =
     [(''ErrorHandler'', Alias ErrorHandler),
      (''AsgiErrorHandler'', Protocol AsgiErrorHandler),
      (''ErrorSerializer'', Alias ErrorSerializer),
      (''SinkCallable'', Protocol SinkCallable),
      (''AsgiSinkCallable'', Protocol AsgiSinkCallable),
      (''ResponderMethod'', Protocol ResponderMethod),
      (''ResponderCallable'', Protocol ResponderCallable),
      (''ProcessRequestMethod'', Alias ProcessRequestMethod),
      (''ProcessResourceMethod'', Alias ProcessResourceMethod),
      (''ProcessResponseMethod'', Alias ProcessResponseMethod),
      (''AsgiResponderMethod'', Protocol AsgiResponderMethod),
      (''AsgiResponderCallable'', Protocol AsgiResponderCallable),
      (''AsgiResponderWsCallable'', Protocol AsgiResponderWsCallable),
      (''AsgiReceive'', Alias AsgiReceive),
      (''AsgiSend'', Alias AsgiSend),
      (''AsgiProcessRequestMethod'', Alias AsgiProcessRequestMethod),
      (''AsgiProcessResourceMethod'', Alias AsgiProcessResourceMethod),
      (''AsgiProcessResponseMethod'', Alias AsgiProcessResponseMethod),
      (''AsgiProcessRequestWsMethod'', Alias AsgiProcessRequestWsMethod),
      (''AsgiProcessResourceWsMethod'', Alias AsgiProcessResourceWsMethod),
      (''FindMethod'', Protocol FindMethod),
      (''SerializeSync'', Protocol SerializeSync),
      (''DeserializeSync'', Alias DeserializeSync)]"

text \<open>The names of the declared contracts whose shape is the asynchronous counterpart of \<open>d\<close>'s.\<close>

definition async_counterparts :: "contract \<Rightarrow> string list" where
  "async_counterparts d =
     (case shape_of d of
        None \<Rightarrow> []
      | Some sh \<Rightarrow>
          map fst (filter (\<lambda>(n, a). shape_of a = Some (async_counterpart sh))
                     declared_contracts))"

subsection \<open>The unset marker\<close>

text \<open>
  For \<open>UnsetOr\<close> the values matter. An object is a member of the enum \<open>_Unset\<close> or
  some other object; a type is the set of its values, \<open>Literal[x]\<close> the singleton of
  \<open>x\<close>, and \<open>Union\<close> the union of the sets: Python's \<open>Union\<close> carries no tag.
\<close>

datatype 'a pyobj = EnumMember Unset | Other 'a

text \<open>\<open>_UNSET = _Unset.UNSET\<close> (line 74).\<close>

definition v_UNSET :: "'a pyobj" where
  "v_UNSET = EnumMember UNSET"

text \<open>The values of the class \<open>_Unset\<close> itself, and of \<open>Literal[_Unset.UNSET]\<close>.\<close>

definition Unset_class :: "'a pyobj set" where
  "Unset_class = range EnumMember"

definition Literal_UNSET :: "'a pyobj set" where
  "Literal_UNSET = {EnumMember UNSET}"

text \<open>\<open>UnsetOr = Union[Literal[_Unset.UNSET], _T]\<close> (line 75), for any type \<open>_T\<close>.\<close>

definition UnsetOr :: "'a pyobj set \<Rightarrow> 'a pyobj set" where
  "UnsetOr t = Literal_UNSET \<union> t"

subsection \<open>Response callbacks\<close>

text \<open>Whether a callable type is asynchronous: calling it gives an awaitable.\<close>

fun async_callable :: "ty \<Rightarrow> bool" where
  "async_callable (TCallable args (TAwaitable r)) = True"
| "async_callable _ = False"

text \<open>A pair of a callable and a boolean literal that says whether the callable is asynchronous.\<close>

fun tagged_truthfully :: "ty \<Rightarrow> bool" where
  "tagged_truthfully (TTuple [TCallable args r, TLiteral (LitBool b)]) =
     (b = async_callable (TCallable args r))"
| "tagged_truthfully _ = False"

subsection \<open>Positional-only parameters\<close>

text \<open>The protocols whose \<open>__call__\<close> has a \<open>/\<close> in its parameter list.\<close>

definition slash_protocols :: "signature list" where
  "slash_protocols =
     [AsgiErrorHandler, SinkCallable, AsgiSinkCallable, ResponderMethod, ResponderCallable,
      AsgiResponderMethod, AsgiResponderCallable, AsgiResponderWsCallable]"

text \<open>An implementation that names its positional-only parameters differently.\<close>

definition rename_posonly :: "string list \<Rightarrow> signature \<Rightarrow> signature" where
  "rename_posonly names s =
     s\<lparr>posonly := map (\<lambda>(n, q). q\<lparr>pname := n\<rparr>) (zip names (posonly s))\<rparr>"

section \<open>Argument binding on the declared signatures\<close>

lemmas declaration_defs =
  ErrorHandler_def AsgiErrorHandler_def ErrorSerializer_def SinkCallable_def
  AsgiSinkCallable_def ResponderMethod_def ResponderCallable_def ProcessRequestMethod_def
  ProcessResourceMethod_def ProcessResponseMethod_def AsgiResponderMethod_def
  AsgiResponderCallable_def AsgiResponderWsCallable_def AsgiReceive_def AsgiSend_def
  AsgiProcessRequestMethod_def AsgiProcessResourceMethod_def AsgiProcessResponseMethod_def
  AsgiProcessRequestWsMethod_def AsgiProcessResourceWsMethod_def FindMethod_def
  SerializeSync_def DeserializeSync_def MethodDict_def Resource_def

lemmas shape_defs =
  async_counterparts_def declared_contracts_def shape_of_def call_shape_def result_type_def
  required_def defaulted_def asgi_param_def

text \<open>Required positional-only parameters are all bound exactly when enough arguments are passed by position.\<close>

lemma required_drop:
  "list_all (\<lambda>q. \<not> has_default q) ps \<Longrightarrow> list_all has_default (drop n ps) \<longleftrightarrow> length ps \<le> n"
proof (induction ps arbitrary: n)
  case Nil
  then show ?case by simp
next
  case (Cons p ps)
  then show ?case by (cases n) auto
qed

text \<open>
  A signature whose positional parameters all stand before \<open>/\<close> and are required takes
  exactly that many positional arguments; keywords can only bind keyword-only parameters or
  land in \<open>**kwargs\<close>.
\<close>

lemma accepts_slash:
  assumes "pos_or_kw s = []" and "list_all (\<lambda>q. \<not> has_default q) (posonly s)"
  shows "accepts s c \<longleftrightarrow>
           npos c = length (posonly s) \<and> distinct (kw_names c)
           \<and> list_all (\<lambda>k. k \<in> set (map pname (kwonly s)) \<or> var_kw s \<noteq> None) (kw_names c)
           \<and> list_all (\<lambda>q. has_default q \<or> pname q \<in> set (kw_names c)) (kwonly s)"
  using assms required_drop [OF assms(2), of "npos c"]
  by (auto simp: accepts_def list_all_iff)

lemma accepts_slash_kwargs:
  assumes "pos_or_kw s = []" and "list_all (\<lambda>q. \<not> has_default q) (posonly s)"
    and "kwonly s = []" and "var_kw s = Some t"
  shows "accepts s c \<longleftrightarrow> npos c = length (posonly s) \<and> distinct (kw_names c)"
  using assms by (simp add: accepts_slash list_all_iff)

text \<open>A \<open>Callable[[...], r]\<close> alias takes its arguments by position only, and all of them.\<close>

lemma accepts_callable:
  "accepts_call (Alias (TCallable args r)) c \<longleftrightarrow> npos c = length args \<and> kw_names c = []"
proof -
  let ?s = "\<lparr>is_async = False, posonly = map (required []) args, pos_or_kw = [],
           kwonly = [], var_kw = None, returns = r\<rparr>"
  have "list_all (\<lambda>q. \<not> has_default q) (posonly ?s)"
    by (simp add: list_all_iff required_def)
  then have "accepts ?s c \<longleftrightarrow> npos c = length args \<and> kw_names c = []"
    by (subst accepts_slash) (auto simp: list_all_iff)
  then show ?thesis by (simp add: accepts_call_def)
qed

lemma distinct_within_one:
  "distinct ks \<and> set ks \<subseteq> {k} \<longleftrightarrow> ks = [] \<or> ks = [k]"
proof (cases ks)
  case Nil
  then show ?thesis by simp
next
  case (Cons a as)
  then show ?thesis by (cases as) auto
qed

lemma renamed_defaults:
  "length names = length ps \<Longrightarrow>
     list_all has_default (drop n (map (\<lambda>(m, q). q\<lparr>pname := m\<rparr>) (zip names ps)))
       = list_all has_default (drop n ps)"
proof (induction names ps arbitrary: n rule: list_induct2)
  case Nil
  then show ?case by simp
next
  case (Cons m names p ps)
  show ?case
  proof (cases n)
    case 0
    then show ?thesis using Cons.IH [of 0] by simp
  next
    case (Suc k)
    then show ?thesis using Cons.IH [of k] by simp
  qed
qed

text \<open>Binding never looks at the name of a positional-only parameter.\<close>

lemma accepts_rename_posonly:
  assumes "length names = length (posonly s)"
  shows "accepts (rename_posonly names s) c = accepts s c"
  using assms renamed_defaults [OF assms, of "npos c"]
  by (simp add: accepts_def rename_posonly_def)

lemma accepts_AsgiErrorHandler:
  "accepts AsgiErrorHandler c \<longleftrightarrow> npos c = 4 \<and> (kw_names c = [] \<or> kw_names c = [''ws''])"
proof -
  have "accepts AsgiErrorHandler c \<longleftrightarrow>
          npos c = 4 \<and> distinct (kw_names c) \<and> set (kw_names c) \<subseteq> {''ws''}"
    by (subst accepts_slash)
      (auto simp: AsgiErrorHandler_def required_def defaulted_def list_all_iff)
  then show ?thesis
    using distinct_within_one [of "kw_names c" "''ws''"] by blast
qed

lemma slash_protocols_declared:
  "\<forall>s \<in> set slash_protocols.
     pos_or_kw s = [] \<and> posonly s \<noteq> [] \<and> list_all (\<lambda>q. \<not> has_default q) (posonly s)
     \<and> set (map pname (posonly s))
         \<subseteq> {''resource'', ''req'', ''resp'', ''error'', ''params'', ''ws''}"
  by (simp add: slash_protocols_def declaration_defs required_def)

section \<open>Responders\<close>

text \<open>
  C1. The responder contract, \<open>ResponderMethod\<close> for WSGI and \<open>AsgiResponderMethod\<close> for
  ASGI, is called with exactly a resource, a request and a response, by position, and with
  any keyword arguments (the path parameters, of any type); it has no other parameter.
  Its result is \<open>None\<close>, and in the asynchronous form an awaitable of \<open>None\<close>.
\<close>

theorem responder_contract:
  "map ptype (posonly ResponderMethod) = [Resource, TVar REQ, TVar RESP]
   \<and> pos_or_kw ResponderMethod = [] \<and> kwonly ResponderMethod = []
   \<and> var_kw ResponderMethod = Some TAny
   \<and> result_type ResponderMethod = TNone
   \<and> (\<forall>c. accepts ResponderMethod c \<longleftrightarrow> npos c = 3 \<and> distinct (kw_names c))
   \<and> map ptype (posonly AsgiResponderMethod) = [Resource, TVar A_REQ, TVar A_RESP]
   \<and> pos_or_kw AsgiResponderMethod = [] \<and> kwonly AsgiResponderMethod = []
   \<and> var_kw AsgiResponderMethod = Some TAny
   \<and> result_type AsgiResponderMethod = TAwaitable TNone
   \<and> (\<forall>c. accepts AsgiResponderMethod c \<longleftrightarrow> npos c = 3 \<and> distinct (kw_names c))"
proof -
  have w: "\<forall>c. accepts ResponderMethod c \<longleftrightarrow> npos c = 3 \<and> distinct (kw_names c)"
    by (simp add: accepts_slash_kwargs [where t = TAny] ResponderMethod_def required_def
        eval_nat_numeral)
  have a: "\<forall>c. accepts AsgiResponderMethod c \<longleftrightarrow> npos c = 3 \<and> distinct (kw_names c)"
    by (simp add: accepts_slash_kwargs [where t = TAny] AsgiResponderMethod_def required_def
        eval_nat_numeral)
  show ?thesis
    using w a
    by (simp add: ResponderMethod_def AsgiResponderMethod_def result_type_def required_def)
qed

theorem responder_contract_witness:
  "accepts ResponderMethod \<lparr>npos = 3, kw_names = [''user_id'']\<rparr>
   \<and> \<not> accepts ResponderMethod \<lparr>npos = 2, kw_names = [''resp'']\<rparr>
   \<and> accepts AsgiResponderMethod \<lparr>npos = 3, kw_names = []\<rparr>
   \<and> \<not> accepts AsgiResponderMethod \<lparr>npos = 4, kw_names = []\<rparr>"
  using responder_contract by simp

section \<open>Error handlers\<close>

text \<open>
  C2, as the code has it. Both error-handler contracts take a request, a response, the
  raised error and the parameter dictionary, in this order. Only the asynchronous
  \<open>AsgiErrorHandler\<close> declares the response \<open>Optional\<close>; the synchronous
  \<open>ErrorHandler\<close> declares it \<open>_RESP\<close>, a type variable bound to \<open>Response\<close>, which
  does not admit \<open>None\<close>.
\<close>

theorem error_handler_response:
  "positional_types (Protocol AsgiErrorHandler)
     = [TVar A_REQ, TOptional (TVar A_RESP), TVar BE, TDict TStr TAny]
   \<and> admits_none (positional_types (Protocol AsgiErrorHandler) ! 1)
   \<and> positional_types (Alias ErrorHandler) = [TVar REQ, TVar RESP, TVar BE, TDict TStr TAny]
   \<and> bound RESP = Some ''Response''
   \<and> \<not> admits_none (positional_types (Alias ErrorHandler) ! 1)"
  by (simp add: positional_types_def ErrorHandler_def AsgiErrorHandler_def required_def)

text \<open>
  The response parameter of the synchronous \<open>ErrorHandler\<close> is not optional, so "in
  both forms the response may be absent" does not hold.
\<close>

theorem error_handler_response_counterexample:
  "\<not> admits_none (positional_types (Alias ErrorHandler) ! 1)"
  by (simp add: positional_types_def ErrorHandler_def required_def)

text \<open>
  C3. \<open>AsgiErrorHandler\<close> has one parameter beyond the four positional ones: \<open>ws\<close>,
  keyword-only, with a default, of type \<open>Optional[WebSocket]\<close>; it is called with four
  positional arguments and with or without \<open>ws=\<close>. The synchronous \<open>ErrorHandler\<close> has
  no keyword parameter at all: it takes its four arguments by position and nothing else.
\<close>

theorem asgi_error_handler_ws:
  "kwonly AsgiErrorHandler = [defaulted ''ws'' (TOptional (TClass ''WebSocket''))]
   \<and> keyword_params (Protocol AsgiErrorHandler) = kwonly AsgiErrorHandler
   \<and> has_default (defaulted ''ws'' (TOptional (TClass ''WebSocket'')))
   \<and> admits_none (TOptional (TClass ''WebSocket''))
   \<and> (\<forall>c. accepts_call (Protocol AsgiErrorHandler) c
            \<longleftrightarrow> npos c = 4 \<and> (kw_names c = [] \<or> kw_names c = [''ws'']))
   \<and> keyword_params (Alias ErrorHandler) = []
   \<and> (\<forall>c. accepts_call (Alias ErrorHandler) c \<longleftrightarrow> npos c = 4 \<and> kw_names c = [])"
proof -
  have a: "\<forall>c. accepts_call (Protocol AsgiErrorHandler) c
            \<longleftrightarrow> npos c = 4 \<and> (kw_names c = [] \<or> kw_names c = [''ws''])"
    by (simp add: accepts_call_def accepts_AsgiErrorHandler)
  have s: "\<forall>c. accepts_call (Alias ErrorHandler) c \<longleftrightarrow> npos c = 4 \<and> kw_names c = []"
    by (simp add: ErrorHandler_def accepts_callable eval_nat_numeral)
  have "kwonly AsgiErrorHandler = [defaulted ''ws'' (TOptional (TClass ''WebSocket''))]"
    by (simp add: AsgiErrorHandler_def)
  moreover have "keyword_params (Protocol AsgiErrorHandler) = kwonly AsgiErrorHandler"
    by (simp add: keyword_params_def AsgiErrorHandler_def)
  moreover have "keyword_params (Alias ErrorHandler) = []"
    by (simp add: keyword_params_def ErrorHandler_def)
  ultimately show ?thesis
    using a s by (simp add: defaulted_def)
qed

theorem asgi_error_handler_ws_witness:
  "accepts_call (Protocol AsgiErrorHandler) \<lparr>npos = 4, kw_names = []\<rparr>
   \<and> accepts_call (Protocol AsgiErrorHandler) \<lparr>npos = 4, kw_names = [''ws'']\<rparr>
   \<and> \<not> accepts_call (Protocol AsgiErrorHandler) \<lparr>npos = 5, kw_names = []\<rparr>
   \<and> accepts_call (Alias ErrorHandler) \<lparr>npos = 4, kw_names = []\<rparr>
   \<and> \<not> accepts_call (Alias ErrorHandler) \<lparr>npos = 4, kw_names = [''ws'']\<rparr>"
  using asgi_error_handler_ws by simp

section \<open>Sinks\<close>

text \<open>
  C4. \<open>SinkCallable\<close> and \<open>AsgiSinkCallable\<close> are called with exactly a request and a
  response, by position, and any keyword arguments, each of type \<open>str\<close>; the result is
  \<open>None\<close> (an awaitable of \<open>None\<close> in the asynchronous form). A sink prefix is a string
  or a compiled pattern over strings.
\<close>

theorem sink_contract:
  "map ptype (posonly SinkCallable) = [TVar REQ, TVar RESP]
   \<and> pos_or_kw SinkCallable = [] \<and> kwonly SinkCallable = []
   \<and> var_kw SinkCallable = Some TStr
   \<and> result_type SinkCallable = TNone
   \<and> (\<forall>c. accepts SinkCallable c \<longleftrightarrow> npos c = 2 \<and> distinct (kw_names c))
   \<and> map ptype (posonly AsgiSinkCallable) = [TVar A_REQ, TVar A_RESP]
   \<and> pos_or_kw AsgiSinkCallable = [] \<and> kwonly AsgiSinkCallable = []
   \<and> var_kw AsgiSinkCallable = Some TStr
   \<and> result_type AsgiSinkCallable = TAwaitable TNone
   \<and> (\<forall>c. accepts AsgiSinkCallable c \<longleftrightarrow> npos c = 2 \<and> distinct (kw_names c))
   \<and> members SinkPrefix = [TStr, TPattern TStr]"
proof -
  have w: "\<forall>c. accepts SinkCallable c \<longleftrightarrow> npos c = 2 \<and> distinct (kw_names c)"
    by (simp add: accepts_slash_kwargs [where t = TStr] SinkCallable_def required_def
        eval_nat_numeral)
  have a: "\<forall>c. accepts AsgiSinkCallable c \<longleftrightarrow> npos c = 2 \<and> distinct (kw_names c)"
    by (simp add: accepts_slash_kwargs [where t = TStr] AsgiSinkCallable_def required_def
        eval_nat_numeral)
  show ?thesis
    using w a
    by (simp add: SinkCallable_def AsgiSinkCallable_def SinkPrefix_def result_type_def
        required_def)
qed

theorem sink_contract_witness:
  "accepts SinkCallable \<lparr>npos = 2, kw_names = [''path'']\<rparr>
   \<and> \<not> accepts SinkCallable \<lparr>npos = 1, kw_names = [''resp'']\<rparr>
   \<and> accepts AsgiSinkCallable \<lparr>npos = 2, kw_names = []\<rparr>"
  using sink_contract by simp

section \<open>Media\<close>

text \<open>
  C5, as the code has it. \<open>SerializeSync\<close> takes an arbitrary value and an optional
  content type (which has a default, so it may be omitted) and gives \<open>bytes\<close>.
  \<open>DeserializeSync\<close> takes \<open>bytes\<close> and gives an arbitrary value; it has that one
  parameter only, and no content type.
\<close>

theorem media_contract:
  "pos_or_kw SerializeSync = [required ''media'' TAny, defaulted ''content_type'' (TOptional TStr)]
   \<and> posonly SerializeSync = [] \<and> kwonly SerializeSync = [] \<and> var_kw SerializeSync = None
   \<and> result_type SerializeSync = TBytes
   \<and> accepts SerializeSync \<lparr>npos = 1, kw_names = []\<rparr>
   \<and> accepts SerializeSync \<lparr>npos = 2, kw_names = []\<rparr>
   \<and> accepts SerializeSync \<lparr>npos = 1, kw_names = [''content_type'']\<rparr>
   \<and> DeserializeSync = TCallable [TBytes] TAny
   \<and> param_types (Alias DeserializeSync) = [TBytes]
   \<and> (\<forall>c. accepts_call (Alias DeserializeSync) c \<longleftrightarrow> npos c = 1 \<and> kw_names c = [])"
proof -
  have "\<forall>c. accepts_call (Alias DeserializeSync) c \<longleftrightarrow> npos c = 1 \<and> kw_names c = []"
    by (simp add: DeserializeSync_def accepts_callable)
  moreover have "accepts SerializeSync \<lparr>npos = 1, kw_names = []\<rparr>"
    by (simp add: accepts_def SerializeSync_def required_def defaulted_def)
  moreover have "accepts SerializeSync \<lparr>npos = 2, kw_names = []\<rparr>"
    by (simp add: accepts_def SerializeSync_def required_def defaulted_def)
  moreover have "accepts SerializeSync \<lparr>npos = 1, kw_names = [''content_type'']\<rparr>"
    by (simp add: accepts_def SerializeSync_def required_def defaulted_def)
  ultimately show ?thesis
    by (simp add: SerializeSync_def DeserializeSync_def result_type_def param_types_def
        required_def)
qed

theorem media_contract_witness:
  "accepts_call (Alias DeserializeSync) \<lparr>npos = 1, kw_names = []\<rparr>
   \<and> \<not> accepts_call (Alias DeserializeSync) \<lparr>npos = 2, kw_names = []\<rparr>"
  using media_contract by simp

text \<open>
  The serializer has a parameter of type \<open>Optional[str]\<close>; the deserializer has none and
  cannot be passed a content type, by position or by keyword.
\<close>

theorem deserialize_content_type_counterexample:
  "TOptional TStr \<in> set (param_types (Protocol SerializeSync))
   \<and> TOptional TStr \<notin> set (param_types (Alias DeserializeSync))
   \<and> \<not> accepts_call (Alias DeserializeSync) \<lparr>npos = 2, kw_names = []\<rparr>
   \<and> \<not> accepts_call (Alias DeserializeSync) \<lparr>npos = 1, kw_names = [''content_type'']\<rparr>"
  by (simp add: param_types_def SerializeSync_def DeserializeSync_def required_def
      defaulted_def accepts_callable)

section \<open>Routing\<close>

text \<open>
  C6. \<open>FindMethod\<close> takes a URI string and an optional request. Its result type has
  exactly two alternatives: \<open>None\<close>, and the 4-tuple of an object (the resource), a
  \<open>MethodDict\<close>, a dictionary with string keys, and an optional string; every
  alternative is one of the two and not the other. A \<open>MethodDict\<close> is a dictionary from
  strings to responder callables, WSGI or ASGI.
\<close>

theorem find_method_contract:
  "positional_types (Protocol FindMethod) = [TStr, TOptional (TVar REQ)]
   \<and> keyword_params (Protocol FindMethod)
       = [required ''uri'' TStr, required ''req'' (TOptional (TVar REQ))]
   \<and> members (result_type FindMethod)
       = [TTuple [TObject, MethodDict, TDict TStr TAny, TOptional TStr], TNone]
   \<and> members MethodDict
       = [TDict TStr (TClass ''ResponderCallable''),
          TDict TStr (TUnion [TClass ''AsgiResponderCallable'',
                              TClass ''AsgiResponderWsCallable''])]
   \<and> (\<forall>t \<in> set (members (result_type FindMethod)).
         (t = TNone) \<noteq> (t = TTuple [TObject, MethodDict, TDict TStr TAny, TOptional TStr]))"
  by (simp add: positional_types_def keyword_params_def FindMethod_def MethodDict_def
      result_type_def required_def)

theorem find_method_contract_witness:
  "TNone \<in> set (members (result_type FindMethod))
   \<and> TNone \<noteq> TTuple [TObject, MethodDict, TDict TStr TAny, TOptional TStr]"
  using find_method_contract by simp

section \<open>Synchronous and asynchronous families\<close>

lemma cp_ResponderMethod:
  "async_counterparts (Protocol ResponderMethod) = [''AsgiResponderMethod'']"
  by (simp add: shape_defs declaration_defs)

lemma cp_ResponderCallable:
  "async_counterparts (Protocol ResponderCallable) = [''AsgiResponderCallable'']"
  by (simp add: shape_defs declaration_defs)

lemma cp_SinkCallable:
  "async_counterparts (Protocol SinkCallable) = [''AsgiSinkCallable'']"
  by (simp add: shape_defs declaration_defs)

lemma cp_ProcessRequestMethod:
  "async_counterparts (Alias ProcessRequestMethod) = [''AsgiProcessRequestMethod'']"
  by (simp add: shape_defs declaration_defs)

lemma cp_ProcessResourceMethod:
  "async_counterparts (Alias ProcessResourceMethod) = [''AsgiProcessResourceMethod'']"
  by (simp add: shape_defs declaration_defs)

lemma cp_ProcessResponseMethod:
  "async_counterparts (Alias ProcessResponseMethod) = [''AsgiProcessResponseMethod'']"
  by (simp add: shape_defs declaration_defs)

lemma cp_ErrorHandler: "async_counterparts (Alias ErrorHandler) = []"
  by (simp add: shape_defs declaration_defs)

lemma cp_ErrorSerializer: "async_counterparts (Alias ErrorSerializer) = []"
  by (simp add: shape_defs declaration_defs)

lemma cp_FindMethod: "async_counterparts (Protocol FindMethod) = []"
  by (simp add: shape_defs declaration_defs)

lemma cp_SerializeSync: "async_counterparts (Protocol SerializeSync) = []"
  by (simp add: shape_defs declaration_defs)

lemma cp_DeserializeSync: "async_counterparts (Alias DeserializeSync) = []"
  by (simp add: shape_defs declaration_defs)

text \<open>
  C7, as the code has it. The responder, sink and middleware contracts each have exactly one
  asynchronous counterpart among the declarations: the same parameters, with the request
  and response type variables replaced by the ASGI ones, and an awaitable of the same
  result. \<open>ErrorHandler\<close> has none of that shape (\<open>AsgiErrorHandler\<close> differs in its
  optional response and its \<open>ws\<close> parameter), and \<open>ErrorSerializer\<close>, \<open>FindMethod\<close>,
  \<open>SerializeSync\<close> and \<open>DeserializeSync\<close> have no asynchronous counterpart.
\<close>

theorem async_counterparts_of_sync:
  "async_counterparts (Protocol ResponderMethod) = [''AsgiResponderMethod'']
   \<and> async_counterparts (Protocol ResponderCallable) = [''AsgiResponderCallable'']
   \<and> async_counterparts (Protocol SinkCallable) = [''AsgiSinkCallable'']
   \<and> async_counterparts (Alias ProcessRequestMethod) = [''AsgiProcessRequestMethod'']
   \<and> async_counterparts (Alias ProcessResourceMethod) = [''AsgiProcessResourceMethod'']
   \<and> async_counterparts (Alias ProcessResponseMethod) = [''AsgiProcessResponseMethod'']
   \<and> async_counterparts (Alias ErrorHandler) = []
   \<and> async_counterparts (Alias ErrorSerializer) = []
   \<and> async_counterparts (Protocol FindMethod) = []
   \<and> async_counterparts (Protocol SerializeSync) = []
   \<and> async_counterparts (Alias DeserializeSync) = []"
  by (simp only: cp_ResponderMethod cp_ResponderCallable cp_SinkCallable
      cp_ProcessRequestMethod cp_ProcessResourceMethod cp_ProcessResponseMethod
      cp_ErrorHandler cp_ErrorSerializer cp_FindMethod cp_SerializeSync cp_DeserializeSync
      simp_thms)

text \<open>
  \<open>ErrorSerializer\<close> is a synchronous callable contract of the module, and no declared
  contract has its parameters and an awaitable result.
\<close>

theorem async_counterpart_counterexample:
  "ErrorSerializer = TCallable [TVar REQ, TVar RESP, TClass ''HTTPError''] TNone
   \<and> async_counterparts (Alias ErrorSerializer) = []"
  by (simp add: shape_defs declaration_defs)

section \<open>The unset marker\<close>

text \<open>
  C8, as the code has it. The enum \<open>_Unset\<close> has exactly one member, \<open>_UNSET\<close> is that
  member, and \<open>Literal[_Unset.UNSET]\<close> has that value alone. \<open>UnsetOr[T]\<close> is the union
  of the literal and \<open>T\<close>: each of its values is the marker or a value of \<open>T\<close>. The
  union is disjoint, a value being exactly one of the two, when and only when \<open>T\<close> does
  not itself contain the marker.
\<close>

theorem unset_or_union:
  "(\<forall>u :: Unset. u = UNSET)
   \<and> (v_UNSET :: 'a pyobj) = EnumMember UNSET
   \<and> (Literal_UNSET :: 'a pyobj set) = {v_UNSET}
   \<and> (\<forall>v :: 'a pyobj. v \<in> UnsetOr t \<longleftrightarrow> v = v_UNSET \<or> v \<in> t)
   \<and> (v_UNSET \<notin> t \<longrightarrow> (\<forall>v \<in> UnsetOr t. (v = v_UNSET) \<noteq> (v \<in> t)))
   \<and> (Literal_UNSET \<inter> t = {} \<longleftrightarrow> v_UNSET \<notin> t)"
proof -
  have one: "\<forall>u :: Unset. u = UNSET"
  proof
    fix u :: Unset
    show "u = UNSET" by (cases u) simp
  qed
  show ?thesis
    using one by (auto simp: v_UNSET_def UnsetOr_def Literal_UNSET_def)
qed

theorem unset_or_union_witness:
  "(v_UNSET :: nat pyobj) \<notin> range Other
   \<and> Other (0 :: nat) \<in> UnsetOr (range Other)
   \<and> Other (0 :: nat) \<noteq> v_UNSET
   \<and> (v_UNSET :: nat pyobj) \<in> UnsetOr (range Other)"
proof -
  have h: "(v_UNSET :: nat pyobj) \<notin> range Other"
    by (auto simp: v_UNSET_def)
  have m: "Other (0 :: nat) \<in> range Other"
    by simp
  show ?thesis
    using h m unset_or_union [of "range Other :: nat pyobj set"] by blast
qed

text \<open>
  \<open>_T\<close> has no bound, so \<open>UnsetOr[_Unset]\<close> is a type of the module's language: there
  the marker is a value of \<open>T\<close>, and the union is \<open>T\<close> itself.
\<close>

theorem unset_or_disjoint_counterexample:
  "(v_UNSET :: unit pyobj) \<in> Unset_class
   \<and> UnsetOr (Unset_class :: unit pyobj set) = Unset_class"
  by (auto simp: v_UNSET_def Unset_class_def UnsetOr_def Literal_UNSET_def)

section \<open>Response callbacks\<close>

text \<open>
  C9. \<open>ResponseCallbacks\<close> has exactly two alternatives: a callable without parameters
  that returns \<open>None\<close>, paired with \<open>Literal[False]\<close>, and a callable without
  parameters that returns an awaitable of \<open>None\<close>, paired with \<open>Literal[True]\<close>. In
  every alternative the literal says whether the callable is asynchronous, and neither
  mixed pair is an alternative.
\<close>

theorem response_callbacks_tagged:
  "members ResponseCallbacks
     = [TTuple [TCallable [] TNone, TLiteral (LitBool False)],
        TTuple [TCallable [] (TAwaitable TNone), TLiteral (LitBool True)]]
   \<and> (\<forall>m \<in> set (members ResponseCallbacks). tagged_truthfully m)
   \<and> TTuple [TCallable [] TNone, TLiteral (LitBool True)] \<notin> set (members ResponseCallbacks)
   \<and> TTuple [TCallable [] (TAwaitable TNone), TLiteral (LitBool False)]
       \<notin> set (members ResponseCallbacks)"
  by (simp add: ResponseCallbacks_def)

theorem response_callbacks_tagged_witness:
  "TTuple [TCallable [] (TAwaitable TNone), TLiteral (LitBool True)]
     \<in> set (members ResponseCallbacks)
   \<and> tagged_truthfully (TTuple [TCallable [] (TAwaitable TNone), TLiteral (LitBool True)])
   \<and> \<not> tagged_truthfully (TTuple [TCallable [] (TAwaitable TNone), TLiteral (LitBool False)])"
  using response_callbacks_tagged by simp

section \<open>Positional-only parameters\<close>

text \<open>
  C10, as the code has it. In the eight protocols that write \<open>/\<close> (the responders, the
  sinks and \<open>AsgiErrorHandler\<close>) every leading parameter is positional-only: a call that
  binds passes all of them by position, and an implementation that names them differently
  accepts the same calls. \<open>FindMethod\<close> and \<open>SerializeSync\<close> write no \<open>/\<close>: their
  parameters \<open>uri\<close>, \<open>req\<close> and \<open>media\<close>, \<open>content_type\<close> are ordinary ones.
\<close>

theorem slash_protocols_positional_only:
  "(\<forall>s \<in> set slash_protocols.
      pos_or_kw s = [] \<and> posonly s \<noteq> []
      \<and> set (map pname (posonly s))
          \<subseteq> {''resource'', ''req'', ''resp'', ''error'', ''params'', ''ws''}
      \<and> (\<forall>c. accepts s c \<longrightarrow> npos c = length (posonly s))
      \<and> (\<forall>names c. length names = length (posonly s)
            \<longrightarrow> accepts (rename_posonly names s) c = accepts s c))
   \<and> map pname (pos_or_kw FindMethod) = [''uri'', ''req'']
   \<and> map pname (pos_or_kw SerializeSync) = [''media'', ''content_type'']"
proof -
  have "map pname (pos_or_kw FindMethod) = [''uri'', ''req'']"
    by (simp add: FindMethod_def required_def)
  moreover have "map pname (pos_or_kw SerializeSync) = [''media'', ''content_type'']"
    by (simp add: SerializeSync_def required_def defaulted_def)
  moreover have "\<forall>s \<in> set slash_protocols. \<forall>c. accepts s c \<longrightarrow> npos c = length (posonly s)"
    using slash_protocols_declared accepts_slash by blast
  ultimately show ?thesis
    using slash_protocols_declared accepts_rename_posonly by simp
qed

theorem slash_protocols_positional_only_witness:
  "ResponderMethod \<in> set slash_protocols
   \<and> accepts ResponderMethod \<lparr>npos = 3, kw_names = [''req'']\<rparr>
   \<and> accepts (rename_posonly [''res'', ''request'', ''response''] ResponderMethod)
       \<lparr>npos = 3, kw_names = [''req'']\<rparr>
   \<and> \<not> accepts ResponderMethod \<lparr>npos = 2, kw_names = [''resp'']\<rparr>"
proof -
  have m: "ResponderMethod \<in> set slash_protocols"
    by (simp add: slash_protocols_def)
  have l: "length [''res'', ''request'', ''response''] = length (posonly ResponderMethod)"
    by (simp add: ResponderMethod_def)
  have a: "accepts ResponderMethod \<lparr>npos = 3, kw_names = [''req'']\<rparr>"
    by (simp add: accepts_def ResponderMethod_def required_def)
  have n: "npos \<lparr>npos = 2, kw_names = [''resp'']\<rparr> \<noteq> length (posonly ResponderMethod)"
    by (simp add: ResponderMethod_def)
  show ?thesis
    using m l a n slash_protocols_positional_only by blast
qed

text \<open>
  \<open>FindMethod\<close> and \<open>SerializeSync\<close> have no positional-only parameter, and a caller can
  pass every argument of theirs by keyword.
\<close>

theorem positional_only_counterexample:
  "posonly FindMethod = []
   \<and> accepts FindMethod \<lparr>npos = 0, kw_names = [''uri'', ''req'']\<rparr>
   \<and> posonly SerializeSync = []
   \<and> accepts SerializeSync \<lparr>npos = 0, kw_names = [''media'', ''content_type'']\<rparr>"
  by (simp add: accepts_def FindMethod_def SerializeSync_def required_def defaulted_def)

end
